theory Spec2Isabelle
  imports Complex_Main "HOL-Library.Multiset"
begin

section \<open>Strings\<close>

text \<open>
  A JavaScript string is modelled as a \<^typ>\<open>string\<close>, one \<^typ>\<open>char\<close> per code
  unit in the range 0..255 (Latin-1). On that range \<open>String.prototype.trim\<close> strips
  the code units 9..13, 32 and 160, and \<open>toLowerCase\<close> maps A..Z and the capital
  letters 192..222 (215, the multiplication sign, apart) 32 places up.
\<close>

definition isWhiteSpace :: "char \<Rightarrow> bool" where
  "isWhiteSpace c =
     (let n = (of_char c :: nat) in (9 \<le> n \<and> n \<le> 13) \<or> n = 32 \<or> n = 160)"

definition trim :: "string \<Rightarrow> string" where
  "trim s = rev (dropWhile isWhiteSpace (rev (dropWhile isWhiteSpace s)))"

definition toLowerChar :: "char \<Rightarrow> char" where
  "toLowerChar c =
     (let n = (of_char c :: nat)
      in if (65 \<le> n \<and> n \<le> 90) \<or> (192 \<le> n \<and> n \<le> 222 \<and> n \<noteq> 215)
         then char_of (n + 32) else c)"

definition toLowerCase :: "string \<Rightarrow> string" where
  "toLowerCase s = map toLowerChar s"

text \<open>\<open>s.includes(t)\<close>: \<open>t\<close> occurs in \<open>s\<close> as a contiguous run.\<close>

fun startsWith :: "string \<Rightarrow> string \<Rightarrow> bool" where
  "startsWith s [] = True"
| "startsWith [] (c # t) = False"
| "startsWith (d # s) (c # t) = (d = c \<and> startsWith s t)"

fun includes_str :: "string \<Rightarrow> string \<Rightarrow> bool" where
  "includes_str [] t = startsWith [] t"
| "includes_str (d # s) t = (startsWith (d # s) t \<or> includes_str s t)"

section \<open>The selected-tags buffer\<close>

text \<open>
  \<open>selectedTags\<close> is a module-level array; \<open>addTag\<close> and \<open>removeTag\<close> take the
  buffer and return the new one. \<open>push\<close> appends at the end.
\<close>

definition addTag :: "string \<Rightarrow> string list \<Rightarrow> string list" where
  "addTag tagName selectedTags =
     (let trimmedTag = toLowerCase (trim tagName)
      in if trimmedTag \<noteq> [] \<and> trimmedTag \<notin> set selectedTags \<and> length selectedTags < 5
         then selectedTags @ [trimmedTag] else selectedTags)"

definition removeTag :: "string \<Rightarrow> string list \<Rightarrow> string list" where
  "removeTag tagName selectedTags = filter (\<lambda>tag. tag \<noteq> tagName) selectedTags"

text \<open>The invariant of the buffer: at most five tags, no tag twice, each tag non-empty,
  trimmed and in lower case.\<close>

definition normalTag :: "string \<Rightarrow> bool" where
  "normalTag t = (t \<noteq> [] \<and> trim t = t \<and> toLowerCase t = t)"

definition tagsInv :: "string list \<Rightarrow> bool" where
  "tagsInv selectedTags =
     (length selectedTags \<le> 5 \<and> distinct selectedTags \<and> list_all normalTag selectedTags)"

section \<open>Entries\<close>

text \<open>
  The five moods are the keys of the tables \<open>moodRank\<close>, \<open>moodNames\<close> and
  \<open>emojiMap\<close>; \<open>moodName\<close> is the string an entry stores in its \<open>mood\<close> field.
\<close>

datatype mood = Amazing | Good | Neutral | Stressed | Terrible

fun moodName :: "mood \<Rightarrow> string" where
  "moodName Amazing = ''Amazing''"
| "moodName Good = ''Good''"
| "moodName Neutral = ''Neutral''"
| "moodName Stressed = ''Stressed''"
| "moodName Terrible = ''Terrible''"

text \<open>
  An entry is the object \<open>{id, mood, note, tags, timestamp}\<close>. Its \<open>mood\<close> is one
  of the five names. The source guards a missing \<open>tags\<close> (\<open>entry.tags || []\<close>,
  \<open>entry.tags && ...\<close>) and, when it renders, a missing \<open>note\<close>: both fields are
  optional here, \<open>None\<close> standing for a field that is absent (for \<open>note\<close>: that is
  not a string). The type of \<open>timestamp\<close> is a parameter: an entry of the store carries
  a valid \<open>Date\<close>, modelled by its time value in milliseconds (an \<^typ>\<open>int\<close>); an
  entry of an imported file carries the raw value that \<open>new Date\<close> is applied to.
\<close>

record 't entry =
  entry_id :: int
  mood :: mood
  entry_note :: "string option"
  tags :: "string list option"
  timestamp :: 't

section \<open>Sorting\<close>

text \<open>
  \<open>Array.prototype.sort(comparefn)\<close> is stable, and \<open>a\<close> comes before \<open>b\<close> when
  \<open>comparefn(a, b) < 0\<close>: for a consistent comparator the result is the one of any
  stable sort, here insertion from the right.
\<close>

fun insertBy :: "('a \<Rightarrow> 'a \<Rightarrow> int) \<Rightarrow> 'a \<Rightarrow> 'a list \<Rightarrow> 'a list" where
  "insertBy comparefn a [] = [a]"
| "insertBy comparefn a (b # bs) =
     (if comparefn a b \<le> 0 then a # b # bs else b # insertBy comparefn a bs)"

definition array_sort :: "('a \<Rightarrow> 'a \<Rightarrow> int) \<Rightarrow> 'a list \<Rightarrow> 'a list" where
  "array_sort comparefn xs = foldr (insertBy comparefn) xs []"

fun moodRank :: "mood \<Rightarrow> int" where
  "moodRank Amazing = 5"
| "moodRank Good = 4"
| "moodRank Neutral = 3"
| "moodRank Stressed = 2"
| "moodRank Terrible = 1"

text \<open>\<open>currentSort\<close> is a module-level variable, here the first argument.\<close>

definition sortEntries :: "string \<Rightarrow> int entry list \<Rightarrow> int entry list" where
  "sortEntries currentSort entries =
     (if currentSort = ''newest'' then array_sort (\<lambda>a b. timestamp b - timestamp a) entries
      else if currentSort = ''oldest'' then array_sort (\<lambda>a b. timestamp a - timestamp b) entries
      else if currentSort = ''mood-best''
        then array_sort (\<lambda>a b. moodRank (mood b) - moodRank (mood a)) entries
      else if currentSort = ''mood-worst''
        then array_sort (\<lambda>a b. moodRank (mood a) - moodRank (mood b)) entries
      else entries)"

section \<open>Statistics\<close>






text \<open>
  \<open>moodCounts\<close> is an object used as a dictionary: an association list in the order
  the keys were created, which is the order \<open>Object.keys\<close> lists them in (no mood name
  is an array index). A key that is absent reads as \<open>undefined\<close>, and
  \<open>undefined > n\<close> is false.
\<close>

fun bump :: "string \<Rightarrow> (string \<times> nat) list \<Rightarrow> (string \<times> nat) list" where
  "bump k [] = [(k, 1)]"
| "bump k ((k', n) # kvs) = (if k = k' then (k', n + 1) # kvs else (k', n) # bump k kvs)"

definition moodCounts :: "'t entry list \<Rightarrow> (string \<times> nat) list" where
  "moodCounts moodEntries = foldl (\<lambda>counts entry. bump (moodName (mood entry)) counts) [] moodEntries"

fun js_greater :: "nat option \<Rightarrow> nat option \<Rightarrow> bool" where
  "js_greater (Some m) (Some n) = (m > n)"
| "js_greater _ _ = False"

definition mostCommon :: "'t entry list \<Rightarrow> string" where
  "mostCommon moodEntries =
     (let counts = moodCounts moodEntries
      in foldl (\<lambda>a b. if js_greater (map_of counts a) (map_of counts b) then a else b)
           ''-'' (map fst counts))"

text \<open>What \<open>updateStats\<close> shows as the most common mood: the text \<open>-\<close> for an empty
  store, else the emoji of the key \<open>mostCommon\<close>, here the key itself.\<close>

definition mostCommonMood :: "'t entry list \<Rightarrow> string" where
  "mostCommonMood moodEntries = (if length moodEntries = 0 then ''-'' else mostCommon moodEntries)"

text \<open>
  The most common mood in the specification's words, for comparison: the first key, in
  the order \<open>Object.keys\<close> lists them, whose count is the largest, and \<open>-\<close> for
  an empty store.
\<close>

definition spec_mostCommonMood :: "'t entry list \<Rightarrow> string" where
  "spec_mostCommonMood moodEntries =
     (let counts = moodCounts moodEntries;
          largest = foldr max (map snd counts) 0
      in case filter (\<lambda>kv. snd kv = largest) counts of
           [] \<Rightarrow> ''-''
         | kv # rest \<Rightarrow> fst kv)"

section \<open>Distribution\<close>

definition moodNames :: "(string \<times> string) list" where
  "moodNames = [(''amazing'', ''Amazing''), (''good'', ''Good''), (''neutral'', ''Neutral''),
                (''stressed'', ''Stressed''), (''terrible'', ''Terrible'')]"

definition moods :: "string list" where
  "moods = [''amazing'', ''good'', ''neutral'', ''stressed'', ''terrible'']"

text \<open>
  \<open>total_entries\<close> is the source's \<open>total\<close>, \<open>moodEntries.length || 1\<close>. The
  quotient \<open>(count / total) * 100\<close> is a double in the source; it is an exact rational
  here, so what is proved of the percentages holds of the source's up to the rounding of
  the two operations.
\<close>

definition total_entries :: "'t entry list \<Rightarrow> nat" where
  "total_entries moodEntries = (if length moodEntries = 0 then 1 else length moodEntries)"

definition moodCount :: "'t entry list \<Rightarrow> string \<Rightarrow> nat" where
  "moodCount moodEntries key =
     length (filter (\<lambda>entry. Some (moodName (mood entry)) = map_of moodNames key) moodEntries)"

definition percentage :: "'t entry list \<Rightarrow> string \<Rightarrow> rat" where
  "percentage moodEntries key =
     (of_nat (moodCount moodEntries key) / of_nat (total_entries moodEntries)) * 100"

text \<open>The widths of the five bars, in the order of \<open>moods\<close>.\<close>

definition updateMoodDistribution :: "'t entry list \<Rightarrow> (string \<times> rat) list" where
  "updateMoodDistribution moodEntries = map (\<lambda>key. (key, percentage moodEntries key)) moods"

section \<open>Filtering and search\<close>

datatype error = TypeError

definition moodFilter :: "string \<Rightarrow> 't entry list \<Rightarrow> 't entry list" where
  "moodFilter currentFilter moodEntries =
     (if currentFilter = ''All'' then moodEntries
      else filter (\<lambda>entry. moodName (mood entry) = currentFilter) moodEntries)"

text \<open>
  The search reads three properties of an entry object, \<open>note\<close>, \<open>mood\<close> and
  \<open>tags\<close>, and calls methods on them whatever they are. After an import or a load
  each of them is any value that \<open>JSON.parse\<close> returns, or \<open>undefined\<close> when the
  property is absent. \<open>JSObject\<close> is an object that is not an array; no property of a
  parsed value is a function.
\<close>

datatype jsval =
  JSUndefined | JSNull | JSBoolean bool | JSNumber rat | JSString string
  | JSArray "jsval list" | JSObject

record entry_object =
  note_prop :: jsval
  mood_prop :: jsval
  tags_prop :: jsval

fun truthy :: "jsval \<Rightarrow> bool" where
  "truthy JSUndefined = False"
| "truthy JSNull = False"
| "truthy (JSBoolean b) = b"
| "truthy (JSNumber n) = (n \<noteq> 0)"
| "truthy (JSString s) = (s \<noteq> [])"
| "truthy (JSArray vs) = True"
| "truthy JSObject = True"

fun is_string :: "jsval \<Rightarrow> bool" where
  "is_string (JSString s) = True"
| "is_string _ = False"

text \<open>\<open>v.toLowerCase()\<close>: only a string has the method; the call on any other
  value throws a TypeError.\<close>

fun toLowerCase_call :: "jsval \<Rightarrow> error + string" where
  "toLowerCase_call (JSString s) = Inr (toLowerCase s)"
| "toLowerCase_call _ = Inl TypeError"

text \<open>\<open>v.includes(searchTerm)\<close>: a string looks for the term as a substring, an array
  for the term as an element; the call on any other value throws a TypeError.\<close>

fun includes_call :: "jsval \<Rightarrow> string \<Rightarrow> error + bool" where
  "includes_call (JSString s) searchTerm = Inr (includes_str s searchTerm)"
| "includes_call (JSArray vs) searchTerm = Inr (JSString searchTerm \<in> set vs)"
| "includes_call _ searchTerm = Inl TypeError"

text \<open>\<open>Array.prototype.some\<close> with a callback that may throw; it stops at the first
  element for which the callback is true.\<close>

fun someE :: "('a \<Rightarrow> error + bool) \<Rightarrow> 'a list \<Rightarrow> error + bool" where
  "someE p [] = Inr False"
| "someE p (x # xs) =
     (case p x of
        Inl e \<Rightarrow> Inl e
      | Inr found \<Rightarrow> (if found then Inr True else someE p xs))"

text \<open>
  The callback of the search filter, lines 494 to 496. \<open>||\<close> evaluates the next operand
  only when the one before is false, and \<open>&&\<close> its second operand only when the first
  is truthy. So \<open>entry.note.toLowerCase()\<close> is always evaluated,
  \<open>entry.mood.toLowerCase()\<close> when the note does not contain the term, and
  \<open>entry.tags.some\<close> when neither does and \<open>tags\<close> is truthy; only an array has the
  method \<open>some\<close>.
\<close>

definition matchesSearch :: "string \<Rightarrow> entry_object \<Rightarrow> error + bool" where
  "matchesSearch searchTerm entry =
     (case toLowerCase_call (note_prop entry) of
        Inl e \<Rightarrow> Inl e
      | Inr noteText \<Rightarrow>
          if includes_str noteText searchTerm then Inr True
          else (case toLowerCase_call (mood_prop entry) of
                  Inl e \<Rightarrow> Inl e
                | Inr moodText \<Rightarrow>
                    if includes_str moodText searchTerm then Inr True
                    else if \<not> truthy (tags_prop entry) then Inr False
                    else (case tags_prop entry of
                            JSArray ts \<Rightarrow> someE (\<lambda>tag. includes_call tag searchTerm) ts
                          | _ \<Rightarrow> Inl TypeError)))"

text \<open>
  The object of an entry of the data model: its mood is the mood's name, its note a
  string or absent, its tags an array of strings or absent.
\<close>

definition object_of :: "'t entry \<Rightarrow> entry_object" where
  "object_of entry =
     \<lparr>note_prop = (case entry_note entry of None \<Rightarrow> JSUndefined | Some s \<Rightarrow> JSString s),
      mood_prop = JSString (moodName (mood entry)),
      tags_prop = (case tags entry of None \<Rightarrow> JSUndefined | Some ts \<Rightarrow> JSArray (map JSString ts))\<rparr>"

text \<open>The entry objects on which the search cannot throw: note and mood are strings,
  tags is falsy or an array of strings.\<close>

definition string_tags :: "jsval \<Rightarrow> bool" where
  "string_tags v = (case v of JSArray ts \<Rightarrow> list_all is_string ts | _ \<Rightarrow> \<not> truthy v)"

definition searchable :: "entry_object \<Rightarrow> bool" where
  "searchable entry =
     (is_string (note_prop entry) \<and> is_string (mood_prop entry) \<and> string_tags (tags_prop entry))"

text \<open>\<open>Array.prototype.filter\<close> with a callback that may throw: the first throw ends it.\<close>

fun filterE :: "('a \<Rightarrow> error + bool) \<Rightarrow> 'a list \<Rightarrow> error + 'a list" where
  "filterE p [] = Inr []"
| "filterE p (x # xs) =
     (case p x of
        Inl e \<Rightarrow> Inl e
      | Inr keep \<Rightarrow>
          (case filterE p xs of
             Inl e \<Rightarrow> Inl e
           | Inr ys \<Rightarrow> Inr (if keep then x # ys else ys)))"

text \<open>
  The search stage of \<open>renderHistory\<close>, lines 491 to 498. \<open>searchValue\<close> is the value
  of the search input; \<open>view\<close> gives the object of an element of the list, so that the
  stage is the same for a list of entries of the data model (\<open>searchFilter\<close>) and for a
  list of objects as they are (\<open>view\<close> the identity).
\<close>

definition searchStage :: "('e \<Rightarrow> entry_object) \<Rightarrow> string \<Rightarrow> 'e list \<Rightarrow> error + 'e list" where
  "searchStage view searchValue filteredEntries =
     (if trim searchValue \<noteq> []
      then (let searchTerm = toLowerCase (trim searchValue)
            in filterE (\<lambda>entry. matchesSearch searchTerm (view entry)) filteredEntries)
      else Inr filteredEntries)"

definition searchFilter :: "string \<Rightarrow> 't entry list \<Rightarrow> error + 't entry list" where
  "searchFilter searchValue filteredEntries = searchStage object_of searchValue filteredEntries"

text \<open>The entries \<open>renderHistory\<close> lists: mood filter, search filter, then the sort.\<close>

definition filterEntries :: "string \<Rightarrow> string \<Rightarrow> 't entry list \<Rightarrow> error + 't entry list" where
  "filterEntries currentFilter searchValue moodEntries =
     searchFilter searchValue (moodFilter currentFilter moodEntries)"

definition renderHistory :: "string \<Rightarrow> string \<Rightarrow> string \<Rightarrow> int entry list
    \<Rightarrow> error + int entry list" where
  "renderHistory currentFilter searchValue currentSort moodEntries =
     (case filterEntries currentFilter searchValue moodEntries of
        Inl e \<Rightarrow> Inl e
      | Inr filteredEntries \<Rightarrow> Inr (sortEntries currentSort filteredEntries))"

section \<open>Import\<close>

text \<open>
  What \<open>JSON.parse\<close> makes of the text of the file: it throws (\<open>NotJSON\<close>) or returns
  a value, an array of entries or a value of which \<open>Array.isArray\<close> is false.
\<close>

datatype 'r json = JNull | JBool bool | JNumber int | JString string | JObject | JArray "'r entry list"

datatype 'r fileText = NotJSON | JSON "'r json"

fun isArray :: "'r json \<Rightarrow> bool" where
  "isArray (JArray entries) = True"
| "isArray _ = False"

datatype notice = Modal string string | Toast string

text \<open>\<open>entry.timestamp = new Date(entry.timestamp)\<close>, with \<open>newDate\<close> for the
  constructor's reading of the raw value.\<close>

definition reparse :: "('r \<Rightarrow> int) \<Rightarrow> 'r entry \<Rightarrow> int entry" where
  "reparse newDate entry =
     \<lparr>entry_id = entry_id entry, mood = mood entry, entry_note = entry_note entry,
      tags = tags entry, timestamp = newDate (timestamp entry)\<rparr>"

text \<open>
  \<open>importData\<close>, from the store before to the store after and the notice shown. With
  no file it returns at once. Of the renderers that \<open>renderAll\<close> calls only
  \<open>renderHistory\<close> can throw; a throw after the store was assigned lands in the same
  \<open>catch\<close> as a throw of \<open>JSON.parse\<close>.
\<close>

definition importData :: "('r \<Rightarrow> int) \<Rightarrow> string \<Rightarrow> string \<Rightarrow> string \<Rightarrow> 'r fileText option
    \<Rightarrow> int entry list \<Rightarrow> int entry list \<times> notice option" where
  "importData newDate currentFilter searchValue currentSort file moodEntries =
     (case file of
        None \<Rightarrow> (moodEntries, None)
      | Some NotJSON \<Rightarrow> (moodEntries, Some (Modal ''Import Error'' ''Could not parse JSON.''))
      | Some (JSON imported) \<Rightarrow>
          (case imported of
             JArray entries \<Rightarrow>
               (let moodEntries' = map (reparse newDate) entries @ moodEntries
                in (case renderHistory currentFilter searchValue currentSort moodEntries' of
                      Inl e \<Rightarrow> (moodEntries', Some (Modal ''Import Error'' ''Could not parse JSON.''))
                    | Inr shown \<Rightarrow> (moodEntries', Some (Toast ''Data imported successfully''))))
           | _ \<Rightarrow> (moodEntries, Some (Modal ''Import Error'' ''Invalid data format.''))))"

section \<open>Properties of the strings\<close>

lemma isWhiteSpace_toLowerChar: "isWhiteSpace (toLowerChar c) = isWhiteSpace c"
  by (auto simp: isWhiteSpace_def toLowerChar_def Let_def)

lemma toLowerChar_idem: "toLowerChar (toLowerChar c) = toLowerChar c"
  by (auto simp: toLowerChar_def Let_def)

lemma toLowerCase_idem: "toLowerCase (toLowerCase s) = toLowerCase s"
  by (simp add: toLowerCase_def toLowerChar_idem)

lemma dropWhile_toLowerCase:
  "dropWhile isWhiteSpace (toLowerCase s) = toLowerCase (dropWhile isWhiteSpace s)"
  by (induction s) (simp_all add: toLowerCase_def isWhiteSpace_toLowerChar)

lemma trim_toLowerCase: "trim (toLowerCase s) = toLowerCase (trim s)"
proof -
  have "rev (toLowerCase s) = toLowerCase (rev s)" for s
    by (simp add: toLowerCase_def rev_map)
  then show ?thesis
    by (simp add: trim_def dropWhile_toLowerCase)
qed

lemma dropWhile_fixed: "xs = [] \<or> \<not> P (hd xs) \<Longrightarrow> dropWhile P xs = xs"
  by (cases xs) auto

lemma dropWhile_head: "dropWhile P xs = [] \<or> \<not> P (hd (dropWhile P xs))"
  by (metis hd_dropWhile)

lemma trim_idem: "trim (trim s) = trim s"
proof -
  define a where "a = dropWhile isWhiteSpace s"
  define b where "b = dropWhile isWhiteSpace (rev a)"
  have a: "a = [] \<or> \<not> isWhiteSpace (hd a)"
    unfolding a_def by (rule dropWhile_head)
  have b: "b = [] \<or> \<not> isWhiteSpace (hd b)"
    unfolding b_def by (rule dropWhile_head)
  have front: "rev b = [] \<or> \<not> isWhiteSpace (hd (rev b))"
  proof (cases "b = []")
    case True
    then show ?thesis by simp
  next
    case False
    then have "a \<noteq> []" by (auto simp: b_def)
    obtain ps where ps: "rev a = ps @ b"
      unfolding b_def by (metis takeWhile_dropWhile_id)
    have "last b = last (rev a)" using False ps by simp
    also have "\<dots> = hd a" using \<open>a \<noteq> []\<close> by (simp add: last_rev)
    finally have "hd (rev b) = hd a" using False by (simp add: hd_rev)
    then show ?thesis using a \<open>a \<noteq> []\<close> by simp
  qed
  have "trim (rev b) = rev (dropWhile isWhiteSpace (rev (rev b)))"
    unfolding trim_def using dropWhile_fixed [of "rev b" isWhiteSpace] front by simp
  also have "\<dots> = rev b"
    using dropWhile_fixed [of b isWhiteSpace] b by simp
  finally show ?thesis by (simp add: trim_def a_def b_def)
qed

lemma normalTag_normalised:
  "toLowerCase (trim s) \<noteq> [] \<Longrightarrow> normalTag (toLowerCase (trim s))"
  by (simp add: normalTag_def trim_toLowerCase trim_idem toLowerCase_idem)

lemma trim_whitespace: "list_all isWhiteSpace s \<Longrightarrow> trim s = []"
  by (auto simp: trim_def list_all_iff dest: set_dropWhileD)

section \<open>Properties of the selected-tags buffer\<close>

lemma addTag_inv: "tagsInv ts \<Longrightarrow> tagsInv (addTag x ts)"
  using normalTag_normalised [of x]
  by (auto simp: tagsInv_def addTag_def Let_def)

lemma removeTag_inv: "tagsInv ts \<Longrightarrow> tagsInv (removeTag x ts)"
proof -
  assume inv: "tagsInv ts"
  have "length (filter (\<lambda>tag. tag \<noteq> x) ts) \<le> length ts"
    by (rule length_filter_le)
  moreover have "length ts \<le> 5"
    using inv by (simp add: tagsInv_def)
  ultimately have "length (removeTag x ts) \<le> 5"
    unfolding removeTag_def by (rule order_trans)
  then show "tagsInv (removeTag x ts)"
    using inv by (simp add: tagsInv_def removeTag_def list_all_iff)
qed

text \<open>A run of \<open>addTag\<close> calls whose normalised names are new, distinct and non-empty
  fills the buffer in order until it holds five tags.\<close>

lemma addTag_run:
  "length b \<le> 5 \<Longrightarrow> distinct (map (\<lambda>t. toLowerCase (trim t)) xs) \<Longrightarrow>
   [] \<notin> set (map (\<lambda>t. toLowerCase (trim t)) xs) \<Longrightarrow>
   set (map (\<lambda>t. toLowerCase (trim t)) xs) \<inter> set b = {} \<Longrightarrow>
   foldl (\<lambda>buf t. addTag t buf) b xs
     = b @ take (5 - length b) (map (\<lambda>t. toLowerCase (trim t)) xs)"
proof (induction xs arbitrary: b)
  case Nil
  then show ?case by simp
next
  case (Cons x xs)
  show ?case
  proof (cases "length b < 5")
    case True
    have step: "addTag x b = b @ [toLowerCase (trim x)]"
      using Cons.prems True by (auto simp: addTag_def Let_def)
    have "foldl (\<lambda>buf t. addTag t buf) (b @ [toLowerCase (trim x)]) xs
        = (b @ [toLowerCase (trim x)])
          @ take (5 - length (b @ [toLowerCase (trim x)])) (map (\<lambda>t. toLowerCase (trim t)) xs)"
      using Cons.prems True by (intro Cons.IH) auto
    moreover have "5 - length b = Suc (5 - length (b @ [toLowerCase (trim x)]))"
      using True by simp
    ultimately show ?thesis
      by (simp add: step)
  next
    case False
    then have full: "length b = 5" using Cons.prems by simp
    have step: "addTag x b = b"
      using full by (simp add: addTag_def Let_def)
    have "foldl (\<lambda>buf t. addTag t buf) b xs
        = b @ take (5 - length b) (map (\<lambda>t. toLowerCase (trim t)) xs)"
      using Cons.prems by (intro Cons.IH) auto
    then show ?thesis
      by (simp add: step full)
  qed
qed

text \<open>
  C9. The selected-tags buffer holds at most five tags, no tag twice, each non-empty,
  trimmed and in lower case: the empty buffer does, and \<open>addTag\<close> and \<open>removeTag\<close>
  keep it so. Adding tags whose normalised names are distinct and non-empty to the empty
  buffer keeps the first five (so of six the first five); adding a tag whose normalised
  name is in the buffer changes nothing; adding a tag of white space only changes nothing.
\<close>

theorem selectedTags_invariant:
  "tagsInv []
   \<and> (tagsInv ts \<longrightarrow> tagsInv (addTag x ts) \<and> tagsInv (removeTag x ts))
   \<and> (distinct (map (\<lambda>t. toLowerCase (trim t)) xs)
        \<and> [] \<notin> set (map (\<lambda>t. toLowerCase (trim t)) xs)
      \<longrightarrow> foldl (\<lambda>buf t. addTag t buf) [] xs = take 5 (map (\<lambda>t. toLowerCase (trim t)) xs))
   \<and> (toLowerCase (trim x) \<in> set ts \<longrightarrow> addTag x ts = ts)
   \<and> (list_all isWhiteSpace x \<longrightarrow> addTag x ts = ts)"
proof -
  have run: "foldl (\<lambda>buf t. addTag t buf) [] xs = take 5 (map (\<lambda>t. toLowerCase (trim t)) xs)"
    if "distinct (map (\<lambda>t. toLowerCase (trim t)) xs)"
      and "[] \<notin> set (map (\<lambda>t. toLowerCase (trim t)) xs)"
    using addTag_run [of "[]" xs] that by simp
  have dup: "addTag x ts = ts" if "toLowerCase (trim x) \<in> set ts"
    using that by (simp add: addTag_def Let_def)
  have blank: "addTag x ts = ts" if "list_all isWhiteSpace x"
    using trim_whitespace [OF that] by (simp add: addTag_def Let_def toLowerCase_def)
  show ?thesis
    using addTag_inv removeTag_inv run dup blank by (simp add: tagsInv_def)
qed

theorem selectedTags_invariant_witness:
  "tagsInv (addTag ''  Work '' [''home''])
   \<and> tagsInv (removeTag ''home'' [''home''])
   \<and> foldl (\<lambda>buf t. addTag t buf) [] [''a'', ''B'', '' c'', ''d'', ''e'', ''f'']
       = [''a'', ''b'', ''c'', ''d'', ''e'']
   \<and> addTag '' HOME'' [''home''] = [''home'']
   \<and> addTag ''   '' [''home''] = [''home'']"
proof -
  have inv: "tagsInv [''home'']"
    by code_simp
  have six: "distinct (map (\<lambda>t. toLowerCase (trim t)) [''a'', ''B'', '' c'', ''d'', ''e'', ''f''])
      \<and> [] \<notin> set (map (\<lambda>t. toLowerCase (trim t)) [''a'', ''B'', '' c'', ''d'', ''e'', ''f''])"
    by code_simp
  have five: "take 5 (map (\<lambda>t. toLowerCase (trim t)) [''a'', ''B'', '' c'', ''d'', ''e'', ''f''])
      = [''a'', ''b'', ''c'', ''d'', ''e'']"
    by code_simp
  have dup: "toLowerCase (trim '' HOME'') \<in> set [''home'']"
    by code_simp
  have blank: "list_all isWhiteSpace ''   ''"
    by code_simp
  show ?thesis
    using selectedTags_invariant [of "[''home'']" "''  Work ''" "[]"]
      selectedTags_invariant [of "[''home'']" "''home''" "[''a'', ''B'', '' c'', ''d'', ''e'', ''f'']"]
      selectedTags_invariant [of "[''home'']" "'' HOME''" "[]"]
      selectedTags_invariant [of "[''home'']" "''   ''" "[]"]
      inv six five dup blank
    by simp
qed

section \<open>Properties of the filter\<close>

lemma moodName_inj: "moodName a = moodName b \<longleftrightarrow> a = b"
  by (cases a; cases b) simp_all

lemma moodName_not_All: "moodName m \<noteq> ''All''"
  by (cases m) simp_all

lemma count_mood:
  "length (filter (\<lambda>entry. mood entry = M) entries) = count_list (map mood entries) M"
  by (induction entries) simp_all

text \<open>
  C6. With the mood filter \<open>All\<close> and a search value that is empty after trimming, the
  filter of \<open>renderHistory\<close> returns the entries it was given, unchanged.
\<close>

theorem filter_All_identity:
  "trim searchValue = [] \<Longrightarrow> filterEntries ''All'' searchValue moodEntries = Inr moodEntries"
  by (simp add: filterEntries_def searchFilter_def searchStage_def moodFilter_def)

theorem filter_All_identity_witness:
  "filterEntries ''All'' ''  ''
     [\<lparr>entry_id = 1, mood = Good, entry_note = Some ''x'', tags = Some [], timestamp = (0::int)\<rparr>,
      \<lparr>entry_id = 2, mood = Terrible, entry_note = None, tags = None, timestamp = 5\<rparr>]
   = Inr [\<lparr>entry_id = 1, mood = Good, entry_note = Some ''x'', tags = Some [], timestamp = 0\<rparr>,
          \<lparr>entry_id = 2, mood = Terrible, entry_note = None, tags = None, timestamp = 5\<rparr>]"
proof -
  have blank: "trim ''  '' = []"
    by code_simp
  show ?thesis
    by (rule filter_All_identity [OF blank])
qed

text \<open>
  C7. For a mood \<open>M\<close> as the mood filter (no mood is named \<open>All\<close>) and a search value
  that is empty after trimming, the filter returns entries of mood \<open>M\<close> only, as many
  as the store has of that mood.
\<close>

theorem filter_mood:
  "trim searchValue = [] \<Longrightarrow>
   \<exists>ys. filterEntries (moodName M) searchValue moodEntries = Inr ys
        \<and> (\<forall>entry \<in> set ys. mood entry = M)
        \<and> length ys = count_list (map mood moodEntries) M"
  by (simp add: filterEntries_def searchFilter_def searchStage_def moodFilter_def moodName_not_All
      moodName_inj count_mood)

theorem filter_mood_witness:
  "\<exists>ys. filterEntries (moodName Good) []
          [\<lparr>entry_id = 1, mood = Good, entry_note = Some ''x'', tags = Some [], timestamp = (0::int)\<rparr>,
           \<lparr>entry_id = 2, mood = Terrible, entry_note = None, tags = None, timestamp = 5\<rparr>,
           \<lparr>entry_id = 3, mood = Good, entry_note = Some ''y'', tags = None, timestamp = 7\<rparr>]
          = Inr ys
        \<and> list_all (\<lambda>entry. mood entry = Good) ys \<and> length ys = 2"
proof -
  have blank: "trim [] = []"
    by code_simp
  show ?thesis
    using filter_mood [OF blank, of Good
      "[\<lparr>entry_id = 1, mood = Good, entry_note = Some ''x'', tags = Some [], timestamp = (0::int)\<rparr>,
        \<lparr>entry_id = 2, mood = Terrible, entry_note = None, tags = None, timestamp = 5\<rparr>,
        \<lparr>entry_id = 3, mood = Good, entry_note = Some ''y'', tags = None, timestamp = 7\<rparr>]"]
    by (auto simp: list_all_iff)
qed

section \<open>Properties of the search\<close>

lemma filterE_throws:
  "filterE p xs = Inl TypeError \<longleftrightarrow> (\<exists>x \<in> set xs. p x = Inl TypeError)"
proof (induction xs)
  case Nil
  show ?case by simp
next
  case (Cons x xs)
  show ?case
  proof (cases "p x")
    case (Inl e)
    then show ?thesis by (cases e) simp
  next
    case (Inr keep)
    then show ?thesis
      using Cons.IH by (cases "filterE p xs") (auto intro: error.exhaust)
  qed
qed

lemma filterE_returns:
  assumes "\<forall>x \<in> set xs. \<exists>b. p x = Inr b"
  shows "\<exists>ys. filterE p xs = Inr ys"
proof (cases "filterE p xs")
  case (Inl e)
  then have "filterE p xs = Inl TypeError"
    by (cases e) simp
  then obtain x where "x \<in> set xs" and "p x = Inl TypeError"
    unfolding filterE_throws by blast
  then show ?thesis
    using assms by force
next
  case (Inr ys)
  then show ?thesis by simp
qed

lemma toLowerCase_call_string: "is_string v \<Longrightarrow> \<exists>s. toLowerCase_call v = Inr s"
  by (cases v) simp_all

lemma toLowerCase_call_other: "\<not> is_string v \<Longrightarrow> toLowerCase_call v = Inl TypeError"
  by (cases v) simp_all

lemma some_includes_returns:
  "list_all is_string ts \<Longrightarrow> \<exists>b. someE (\<lambda>tag. includes_call tag searchTerm) ts = Inr b"
proof (induction ts)
  case Nil
  show ?case by auto
next
  case (Cons t ts)
  then obtain s where "t = JSString s"
    by (cases t) simp_all
  then show ?case
    using Cons by auto
qed

lemma tags_return:
  assumes "string_tags v" and "truthy v"
  shows "\<exists>b. (case v of JSArray ts \<Rightarrow> someE (\<lambda>tag. includes_call tag searchTerm) ts
                | _ \<Rightarrow> Inl TypeError) = Inr b"
proof (cases v)
  case (JSArray ts)
  then have "list_all is_string ts"
    using assms(1) by (simp add: string_tags_def)
  then show ?thesis
    using JSArray some_includes_returns [of ts searchTerm] by simp
qed (use assms in \<open>simp_all add: string_tags_def\<close>)

lemma matchesSearch_returns:
  assumes "searchable entry"
  shows "\<exists>b. matchesSearch searchTerm entry = Inr b"
proof -
  obtain noteText where n: "toLowerCase_call (note_prop entry) = Inr noteText"
    using assms toLowerCase_call_string unfolding searchable_def by blast
  obtain moodText where m: "toLowerCase_call (mood_prop entry) = Inr moodText"
    using assms toLowerCase_call_string unfolding searchable_def by blast
  have t: "string_tags (tags_prop entry)"
    using assms by (simp add: searchable_def)
  show ?thesis
  proof (cases "truthy (tags_prop entry)")
    case True
    then show ?thesis
      using tags_return [OF t True, of searchTerm] by (auto simp: matchesSearch_def n m)
  next
    case False
    then show ?thesis
      by (auto simp: matchesSearch_def n m)
  qed
qed

lemma matchesSearch_note_throws:
  "\<not> is_string (note_prop entry) \<Longrightarrow> matchesSearch searchTerm entry = Inl TypeError"
  by (simp add: matchesSearch_def toLowerCase_call_other)

text \<open>
  C10, as the code has it. When the note and the mood of every entry are strings and its
  tags are falsy or an array of strings, the search stage returns a list for every
  search value: it does not throw. When the search value is not empty after trimming and
  the note of some entry is not a string, \<open>toLowerCase\<close> is called on a value that is
  not a string and the stage ends with a TypeError.
\<close>

theorem searchStage_total:
  "((\<forall>entry \<in> set entries. searchable (view entry))
      \<longrightarrow> (\<exists>ys. searchStage view searchValue entries = Inr ys))
   \<and> (trim searchValue \<noteq> [] \<and> (\<exists>entry \<in> set entries. \<not> is_string (note_prop (view entry)))
      \<longrightarrow> searchStage view searchValue entries = Inl TypeError)"
proof (intro conjI impI)
  assume "\<forall>entry \<in> set entries. searchable (view entry)"
  then have "\<forall>entry \<in> set entries.
      \<exists>b. matchesSearch (toLowerCase (trim searchValue)) (view entry) = Inr b"
    using matchesSearch_returns by blast
  then have "\<exists>ys. filterE (\<lambda>entry. matchesSearch (toLowerCase (trim searchValue)) (view entry))
      entries = Inr ys"
    by (rule filterE_returns)
  then show "\<exists>ys. searchStage view searchValue entries = Inr ys"
    by (simp add: searchStage_def Let_def)
next
  assume "trim searchValue \<noteq> [] \<and> (\<exists>entry \<in> set entries. \<not> is_string (note_prop (view entry)))"
  then obtain entry where nonempty: "trim searchValue \<noteq> []"
    and member: "entry \<in> set entries"
    and other: "\<not> is_string (note_prop (view entry))"
    by blast
  have "matchesSearch (toLowerCase (trim searchValue)) (view entry) = Inl TypeError"
    using other by (rule matchesSearch_note_throws)
  then have "filterE (\<lambda>entry. matchesSearch (toLowerCase (trim searchValue)) (view entry))
      entries = Inl TypeError"
    unfolding filterE_throws using member by blast
  then show "searchStage view searchValue entries = Inl TypeError"
    using nonempty by (simp add: searchStage_def Let_def)
qed

theorem searchStage_total_witness:
  "(\<exists>ys. searchStage (\<lambda>object. object) ''wor''
       [\<lparr>note_prop = JSString ''Work'', mood_prop = JSString ''Good'',
         tags_prop = JSArray [JSString ''home'']\<rparr>,
        \<lparr>note_prop = JSString ''rest'', mood_prop = JSString ''Neutral'',
         tags_prop = JSUndefined\<rparr>]
       = Inr ys)
   \<and> searchStage (\<lambda>object. object) ''wor''
       [\<lparr>note_prop = JSString ''Work'', mood_prop = JSString ''Good'',
         tags_prop = JSArray [JSString ''home'']\<rparr>,
        \<lparr>note_prop = JSUndefined, mood_prop = JSString ''Good'', tags_prop = JSArray []\<rparr>]
       = Inl TypeError"
proof -
  have nonempty: "trim ''wor'' \<noteq> []"
    by code_simp
  have strings: "\<forall>entry \<in> set
       [\<lparr>note_prop = JSString ''Work'', mood_prop = JSString ''Good'',
         tags_prop = JSArray [JSString ''home'']\<rparr>,
        \<lparr>note_prop = JSString ''rest'', mood_prop = JSString ''Neutral'',
         tags_prop = JSUndefined\<rparr>]. searchable entry"
    by (simp add: searchable_def string_tags_def)
  show ?thesis
    using nonempty strings
      searchStage_total [of
        "[\<lparr>note_prop = JSString ''Work'', mood_prop = JSString ''Good'',
           tags_prop = JSArray [JSString ''home'']\<rparr>,
          \<lparr>note_prop = JSString ''rest'', mood_prop = JSString ''Neutral'',
           tags_prop = JSUndefined\<rparr>]"
        "\<lambda>object. object" "''wor''"]
      searchStage_total [of
        "[\<lparr>note_prop = JSString ''Work'', mood_prop = JSString ''Good'',
           tags_prop = JSArray [JSString ''home'']\<rparr>,
          \<lparr>note_prop = JSUndefined, mood_prop = JSString ''Good'', tags_prop = JSArray []\<rparr>]"
        "\<lambda>object. object" "''wor''"]
    by simp
qed

text \<open>
  C10, as the claim states it, fails: the first entry below, an imported
  \<open>{id: 1, note: "hello", timestamp: 0}\<close>, has a string as its note and no mood. With
  the search value \<open>z\<close> the note does not contain the term, \<open>toLowerCase\<close> is called on
  the missing mood and the stage ends with a TypeError. So it does for the second entry,
  whose note and mood are strings and whose tags hold a number: \<open>includes\<close> is called on
  the number.
\<close>

theorem searchStage_note_only_counterexample:
  "list_all (\<lambda>entry. is_string (note_prop entry))
     [\<lparr>note_prop = JSString ''hello'', mood_prop = JSUndefined, tags_prop = JSUndefined\<rparr>]
   \<and> searchStage (\<lambda>object. object) ''z''
     [\<lparr>note_prop = JSString ''hello'', mood_prop = JSUndefined, tags_prop = JSUndefined\<rparr>]
     = Inl TypeError
   \<and> list_all (\<lambda>entry. is_string (note_prop entry))
     [\<lparr>note_prop = JSString ''hello'', mood_prop = JSString ''Good'',
       tags_prop = JSArray [JSNumber 1]\<rparr>]
   \<and> searchStage (\<lambda>object. object) ''z''
     [\<lparr>note_prop = JSString ''hello'', mood_prop = JSString ''Good'',
       tags_prop = JSArray [JSNumber 1]\<rparr>]
     = Inl TypeError"
  by code_simp

section \<open>Properties of the import\<close>

text \<open>
  C4. When the text of the file is not JSON, or is JSON but not an array, \<open>importData\<close>
  shows the modal titled Import Error and the store is the one it was before.
\<close>

theorem import_failure_keeps_store:
  "file = Some NotJSON \<or> (\<exists>v. file = Some (JSON v) \<and> \<not> isArray v) \<Longrightarrow>
   \<exists>message. importData newDate currentFilter searchValue currentSort file moodEntries
     = (moodEntries, Some (Modal ''Import Error'' message))"
proof (elim disjE exE conjE)
  assume "file = Some NotJSON"
  then show ?thesis
    by (simp add: importData_def)
next
  fix v :: "'a json"
  assume "file = Some (JSON v)" and "\<not> isArray v"
  then show ?thesis
    by (cases v) (simp_all add: importData_def)
qed

theorem import_failure_keeps_store_witness:
  "(\<exists>message. importData (\<lambda>raw :: string. 0) ''All'' [] ''newest'' (Some NotJSON)
       [\<lparr>entry_id = 1, mood = Good, entry_note = Some ''x'', tags = Some [], timestamp = 0\<rparr>]
     = ([\<lparr>entry_id = 1, mood = Good, entry_note = Some ''x'', tags = Some [], timestamp = 0\<rparr>],
        Some (Modal ''Import Error'' message)))
   \<and> (\<exists>message. importData (\<lambda>raw :: string. 0) ''All'' [] ''newest'' (Some (JSON JObject))
       [\<lparr>entry_id = 1, mood = Good, entry_note = Some ''x'', tags = Some [], timestamp = 0\<rparr>]
     = ([\<lparr>entry_id = 1, mood = Good, entry_note = Some ''x'', tags = Some [], timestamp = 0\<rparr>],
        Some (Modal ''Import Error'' message)))"
proof -
  have a: "Some NotJSON = Some (NotJSON :: string fileText)
      \<or> (\<exists>v. Some (NotJSON :: string fileText) = Some (JSON v) \<and> \<not> isArray v)"
    by simp
  have b: "Some (JSON JObject) = Some (NotJSON :: string fileText)
      \<or> (\<exists>v. Some (JSON (JObject :: string json)) = Some (JSON v) \<and> \<not> isArray v)"
    by simp
  show ?thesis
    using import_failure_keeps_store [OF a] import_failure_keeps_store [OF b]
    by blast
qed

lemma importData_store:
  "fst (importData newDate currentFilter searchValue currentSort (Some (JSON (JArray imported)))
          moodEntries)
     = map (reparse newDate) imported @ moodEntries"
  by (simp add: importData_def Let_def split: sum.splits)

text \<open>
  C5. Importing an array of entries puts the whole batch in front of the entries of the
  store, in the batch's order: the store after the import is the imported entries, each
  with its id, mood, note and tags as they were and its timestamp made a date, followed
  by the entries the store had, unchanged. So it has as many entries as the batch and the
  old store together, the entry at a position of the batch is the batch's entry at that
  position, and the entries after the batch are the old store. Importing the one entry
  \<open>{id: 1, mood: "Good", note: "x", tags: [], timestamp: "2024-01-01T00:00:00Z"}\<close> into
  the empty store gives a store of that one entry.
\<close>

theorem import_prepends:
  "fst (importData newDate currentFilter searchValue currentSort (Some (JSON (JArray imported)))
          moodEntries)
     = map (\<lambda>entry. \<lparr>entry_id = entry_id entry, mood = mood entry,
                      entry_note = entry_note entry, tags = tags entry,
                      timestamp = newDate (timestamp entry)\<rparr>) imported
       @ moodEntries
   \<and> length (fst (importData newDate currentFilter searchValue currentSort
          (Some (JSON (JArray imported))) moodEntries))
     = length imported + length moodEntries
   \<and> (\<forall>i < length imported.
        fst (importData newDate currentFilter searchValue currentSort
          (Some (JSON (JArray imported))) moodEntries) ! i
        = \<lparr>entry_id = entry_id (imported ! i), mood = mood (imported ! i),
           entry_note = entry_note (imported ! i), tags = tags (imported ! i),
           timestamp = newDate (timestamp (imported ! i))\<rparr>)
   \<and> drop (length imported)
        (fst (importData newDate currentFilter searchValue currentSort
          (Some (JSON (JArray imported))) moodEntries))
     = moodEntries
   \<and> fst (importData parseDate currentFilter searchValue currentSort
          (Some (JSON (JArray
            [\<lparr>entry_id = 1, mood = Good, entry_note = Some ''x'', tags = Some [],
              timestamp = ''2024-01-01T00:00:00Z''\<rparr>]))) [])
     = [\<lparr>entry_id = 1, mood = Good, entry_note = Some ''x'', tags = Some [],
         timestamp = parseDate ''2024-01-01T00:00:00Z''\<rparr>]"
proof -
  let ?made = "\<lambda>entry. \<lparr>entry_id = entry_id entry, mood = mood entry,
      entry_note = entry_note entry, tags = tags entry,
      timestamp = newDate (timestamp entry)\<rparr>"
  have made: "reparse newDate = ?made"
    by (rule ext) (simp add: reparse_def)
  have store: "fst (importData newDate currentFilter searchValue currentSort
      (Some (JSON (JArray imported))) moodEntries) = map ?made imported @ moodEntries"
    by (simp add: importData_store made)
  have at: "(map ?made imported @ moodEntries) ! i = ?made (imported ! i)"
    if "i < length imported" for i
    using that by (simp add: nth_append)
  have one: "fst (importData parseDate currentFilter searchValue currentSort
      (Some (JSON (JArray
        [\<lparr>entry_id = 1, mood = Good, entry_note = Some ''x'', tags = Some [],
          timestamp = ''2024-01-01T00:00:00Z''\<rparr>]))) [])
     = [\<lparr>entry_id = 1, mood = Good, entry_note = Some ''x'', tags = Some [],
         timestamp = parseDate ''2024-01-01T00:00:00Z''\<rparr>]"
    by (simp add: importData_store reparse_def)
  show ?thesis
    unfolding store using at one by simp
qed

theorem import_prepends_witness:
  "fst (importData (\<lambda>raw :: string. int (length raw)) ''All'' [] ''newest''
     (Some (JSON (JArray
       [\<lparr>entry_id = 7, mood = Amazing, entry_note = Some ''a'', tags = Some [''home''],
         timestamp = ''2024-01-02''\<rparr>,
        \<lparr>entry_id = 8, mood = Terrible, entry_note = None, tags = None,
         timestamp = ''2024''\<rparr>])))
     [\<lparr>entry_id = 1, mood = Good, entry_note = Some ''x'', tags = Some [], timestamp = 0\<rparr>]) ! 1
   = \<lparr>entry_id = 8, mood = Terrible, entry_note = None, tags = None, timestamp = 4\<rparr>"
proof -
  have second: "1 < length
       [\<lparr>entry_id = 7, mood = Amazing, entry_note = Some ''a'', tags = Some [''home''],
         timestamp = ''2024-01-02''\<rparr>,
        \<lparr>entry_id = 8, mood = Terrible, entry_note = None, tags = None,
         timestamp = ''2024''\<rparr>]"
    by simp
  show ?thesis
    using second
      import_prepends [of "\<lambda>raw :: string. int (length raw)" "''All''" "[]" "''newest''"
        "[\<lparr>entry_id = 7, mood = Amazing, entry_note = Some ''a'', tags = Some [''home''],
           timestamp = ''2024-01-02''\<rparr>,
          \<lparr>entry_id = 8, mood = Terrible, entry_note = None, tags = None,
           timestamp = ''2024''\<rparr>]"
        "[\<lparr>entry_id = 1, mood = Good, entry_note = Some ''x'', tags = Some [], timestamp = 0\<rparr>]"]
    by simp
qed

section \<open>Properties of the distribution\<close>

lemma moodCount_keys:
  "moodCount es ''amazing'' = count_list (map mood es) Amazing"
  "moodCount es ''good'' = count_list (map mood es) Good"
  "moodCount es ''neutral'' = count_list (map mood es) Neutral"
  "moodCount es ''stressed'' = count_list (map mood es) Stressed"
  "moodCount es ''terrible'' = count_list (map mood es) Terrible"
proof -
  have name: "moodName m = moodName M \<longleftrightarrow> m = M" for m M
    by (rule moodName_inj)
  show "moodCount es ''amazing'' = count_list (map mood es) Amazing"
    using name [of _ Amazing] by (simp add: moodCount_def moodNames_def count_mood)
  show "moodCount es ''good'' = count_list (map mood es) Good"
    using name [of _ Good] by (simp add: moodCount_def moodNames_def count_mood)
  show "moodCount es ''neutral'' = count_list (map mood es) Neutral"
    using name [of _ Neutral] by (simp add: moodCount_def moodNames_def count_mood)
  show "moodCount es ''stressed'' = count_list (map mood es) Stressed"
    using name [of _ Stressed] by (simp add: moodCount_def moodNames_def count_mood)
  show "moodCount es ''terrible'' = count_list (map mood es) Terrible"
    using name [of _ Terrible] by (simp add: moodCount_def moodNames_def count_mood)
qed

lemma counts_add_up:
  "count_list ms Amazing + count_list ms Good + count_list ms Neutral
     + count_list ms Stressed + count_list ms Terrible = length ms"
proof (induction ms)
  case Nil
  show ?case by simp
next
  case (Cons m ms)
  then show ?case by (cases m) simp_all
qed

lemma updateMoodDistribution_eq:
  "updateMoodDistribution es =
     [(''amazing'', of_nat (count_list (map mood es) Amazing) / of_nat (total_entries es) * 100),
      (''good'', of_nat (count_list (map mood es) Good) / of_nat (total_entries es) * 100),
      (''neutral'', of_nat (count_list (map mood es) Neutral) / of_nat (total_entries es) * 100),
      (''stressed'', of_nat (count_list (map mood es) Stressed) / of_nat (total_entries es) * 100),
      (''terrible'', of_nat (count_list (map mood es) Terrible) / of_nat (total_entries es) * 100)]"
  by (simp add: updateMoodDistribution_def moods_def percentage_def moodCount_keys)

lemma percentages_add_up:
  assumes "es \<noteq> []"
  shows "sum_list (map snd (updateMoodDistribution es)) = 100"
proof -
  define n :: rat where "n = of_nat (length es)"
  have n: "n \<noteq> 0"
    using assms by (simp add: n_def)
  have tot: "of_nat (total_entries es) = n"
    using assms by (simp add: total_entries_def n_def)
  have "of_nat (count_list (map mood es) Amazing) + of_nat (count_list (map mood es) Good)
      + of_nat (count_list (map mood es) Neutral) + of_nat (count_list (map mood es) Stressed)
      + of_nat (count_list (map mood es) Terrible) = n"
    unfolding n_def using counts_add_up [of "map mood es"]
    by (metis length_map of_nat_add)
  then have "(of_nat (count_list (map mood es) Amazing) + of_nat (count_list (map mood es) Good)
      + of_nat (count_list (map mood es) Neutral) + of_nat (count_list (map mood es) Stressed)
      + of_nat (count_list (map mood es) Terrible)) / n * 100 = 100"
    using n by simp
  then show ?thesis
    by (simp add: updateMoodDistribution_eq tot add_divide_distrib distrib_right)
qed

text \<open>
  C3. The distribution gives each of the five moods the number of entries of that mood,
  divided by the number of entries (by 1 when there is none) and multiplied by 100. For
  a non-empty store the five percentages add up to 100; for the empty store the divisor
  is 1 and each of the five is 0.
\<close>

theorem distribution_percentages:
  "updateMoodDistribution es =
     [(''amazing'', of_nat (count_list (map mood es) Amazing) / of_nat (total_entries es) * 100),
      (''good'', of_nat (count_list (map mood es) Good) / of_nat (total_entries es) * 100),
      (''neutral'', of_nat (count_list (map mood es) Neutral) / of_nat (total_entries es) * 100),
      (''stressed'', of_nat (count_list (map mood es) Stressed) / of_nat (total_entries es) * 100),
      (''terrible'', of_nat (count_list (map mood es) Terrible) / of_nat (total_entries es) * 100)]
   \<and> (es \<noteq> [] \<longrightarrow> total_entries es = length es \<and> sum_list (map snd (updateMoodDistribution es)) = 100)
   \<and> (es = [] \<longrightarrow> total_entries es = 1 \<and> map snd (updateMoodDistribution es) = [0, 0, 0, 0, 0])"
proof (intro conjI impI)
  show "updateMoodDistribution es =
     [(''amazing'', of_nat (count_list (map mood es) Amazing) / of_nat (total_entries es) * 100),
      (''good'', of_nat (count_list (map mood es) Good) / of_nat (total_entries es) * 100),
      (''neutral'', of_nat (count_list (map mood es) Neutral) / of_nat (total_entries es) * 100),
      (''stressed'', of_nat (count_list (map mood es) Stressed) / of_nat (total_entries es) * 100),
      (''terrible'', of_nat (count_list (map mood es) Terrible) / of_nat (total_entries es) * 100)]"
    by (rule updateMoodDistribution_eq)
next
  assume "es \<noteq> []"
  then show "total_entries es = length es"
    by (simp add: total_entries_def)
next
  assume "es \<noteq> []"
  then show "sum_list (map snd (updateMoodDistribution es)) = 100"
    by (rule percentages_add_up)
next
  assume "es = []"
  then show "total_entries es = 1"
    by (simp add: total_entries_def)
next
  assume "es = []"
  then show "map snd (updateMoodDistribution es) = [0, 0, 0, 0, 0]"
    by (simp add: updateMoodDistribution_eq)
qed

theorem distribution_percentages_witness:
  "updateMoodDistribution
     [\<lparr>entry_id = 1, mood = Good, entry_note = Some ''x'', tags = Some [], timestamp = (0::int)\<rparr>,
      \<lparr>entry_id = 2, mood = Terrible, entry_note = None, tags = None, timestamp = 5\<rparr>,
      \<lparr>entry_id = 3, mood = Good, entry_note = Some ''y'', tags = None, timestamp = 7\<rparr>]
     = [(''amazing'', 0), (''good'', 200 / 3), (''neutral'', 0), (''stressed'', 0),
        (''terrible'', 100 / 3)]
   \<and> sum_list [0, 200 / 3, 0, 0, 100 / (3::rat)] = 100
   \<and> map snd (updateMoodDistribution ([] :: int entry list)) = [0, 0, 0, 0, 0]"
proof -
  have three: "total_entries
     [\<lparr>entry_id = 1, mood = Good, entry_note = Some ''x'', tags = Some [], timestamp = (0::int)\<rparr>,
      \<lparr>entry_id = 2, mood = Terrible, entry_note = None, tags = None, timestamp = 5\<rparr>,
      \<lparr>entry_id = 3, mood = Good, entry_note = Some ''y'', tags = None, timestamp = 7\<rparr>] = 3"
    by (simp add: total_entries_def)
  show ?thesis
    using three
      distribution_percentages [of
        "[\<lparr>entry_id = 1, mood = Good, entry_note = Some ''x'', tags = Some [], timestamp = (0::int)\<rparr>,
          \<lparr>entry_id = 2, mood = Terrible, entry_note = None, tags = None, timestamp = 5\<rparr>,
          \<lparr>entry_id = 3, mood = Good, entry_note = Some ''y'', tags = None, timestamp = 7\<rparr>]"]
      distribution_percentages [of "[] :: int entry list"]
    by simp
qed

section \<open>Properties of the sort\<close>

text \<open>With a comparator that subtracts keys, the sort is the library's stable sort by key.\<close>

lemma insertBy_insort: "insertBy (\<lambda>a b. f a - f b) x xs = insort_key f x xs"
  by (induction xs) simp_all

lemma array_sort_key: "array_sort (\<lambda>a b. f a - f b) xs = sort_key f xs"
  by (induction xs) (simp_all add: array_sort_def insertBy_insort)

lemma newest_sort_key: "sortEntries ''newest'' es = sort_key (\<lambda>e. - timestamp e) es"
  using array_sort_key [of "\<lambda>e. - timestamp e" es] by (simp add: sortEntries_def)

lemma oldest_sort_key: "sortEntries ''oldest'' es = sort_key timestamp es"
  using array_sort_key [of timestamp es] by (simp add: sortEntries_def)

lemma filter_single: "distinct (map f ys) \<Longrightarrow> k \<in> set ys \<Longrightarrow> filter (\<lambda>x. f k = f x) ys = [k]"
proof (induction ys)
  case Nil
  then show ?case by simp
next
  case (Cons y ys)
  from Cons.prems(1) have "f y \<notin> f ` set ys"
    by simp
  then have other: "\<forall>x \<in> set ys. f x \<noteq> f y"
    by (metis image_eqI)
  show ?case
  proof (cases "k = y")
    case True
    have "filter (\<lambda>x. f y = f x) ys = []"
      using other by (auto simp: filter_empty_conv)
    then show ?thesis
      using True by simp
  next
    case False
    then have k: "k \<in> set ys"
      using Cons.prems by simp
    then have "f k \<noteq> f y"
      using other by blast
    then show ?thesis
      using Cons k by simp
  qed
qed

lemma sorted_rev_neg:
  "sorted (map (\<lambda>e. - f e) ys) \<Longrightarrow> sorted (map f (rev ys))" for f :: "'a \<Rightarrow> int"
  by (induction ys) (auto simp: sorted_append)

lemma sort_key_rev:
  fixes f :: "'a \<Rightarrow> int"
  assumes "distinct (map f ys)" and "sorted (map (\<lambda>e. - f e) ys)"
  shows "sort_key f ys = rev ys"
proof (rule properties_for_sort_key)
  show "mset (rev ys) = mset ys" by simp
next
  fix k assume "k \<in> set (rev ys)"
  then have k: "k \<in> set ys" by simp
  have "distinct (map f (rev ys))"
    using assms(1) by (simp add: distinct_map)
  then have "filter (\<lambda>x. f k = f x) (rev ys) = [k]"
    using k by (intro filter_single) simp_all
  then show "filter (\<lambda>x. f k = f x) (rev ys) = filter (\<lambda>x. f k = f x) ys"
    using filter_single [OF assms(1) k] by simp
next
  show "sorted (map f (rev ys))"
    using assms(2) by (rule sorted_rev_neg)
qed

text \<open>
  C8. When no two entries have the same timestamp, sorting the newest-first list with
  the mode \<open>oldest\<close> gives the newest-first list reversed.
\<close>

theorem oldest_reverses_newest:
  "distinct (map timestamp entries) \<Longrightarrow>
   sortEntries ''oldest'' (sortEntries ''newest'' entries) = rev (sortEntries ''newest'' entries)"
proof -
  assume d: "distinct (map timestamp entries)"
  have "distinct (map timestamp (sort_key (\<lambda>e. - timestamp e) entries))"
    using d by (simp add: distinct_map)
  moreover have "sorted (map (\<lambda>e. - timestamp e) (sort_key (\<lambda>e. - timestamp e) entries))"
    by (rule sorted_sort_key)
  ultimately show ?thesis
    by (simp add: newest_sort_key oldest_sort_key sort_key_rev)
qed

theorem oldest_reverses_newest_witness:
  "sortEntries ''oldest'' (sortEntries ''newest''
     [\<lparr>entry_id = 1, mood = Good, entry_note = Some ''x'', tags = Some [], timestamp = 20\<rparr>,
      \<lparr>entry_id = 2, mood = Terrible, entry_note = None, tags = None, timestamp = 50\<rparr>,
      \<lparr>entry_id = 3, mood = Good, entry_note = Some ''y'', tags = None, timestamp = 10\<rparr>])
   = [\<lparr>entry_id = 3, mood = Good, entry_note = Some ''y'', tags = None, timestamp = 10\<rparr>,
      \<lparr>entry_id = 1, mood = Good, entry_note = Some ''x'', tags = Some [], timestamp = 20\<rparr>,
      \<lparr>entry_id = 2, mood = Terrible, entry_note = None, tags = None, timestamp = 50\<rparr>]"
proof -
  have d: "distinct (map timestamp
     [\<lparr>entry_id = 1, mood = Good, entry_note = Some ''x'', tags = Some [], timestamp = (20::int)\<rparr>,
      \<lparr>entry_id = 2, mood = Terrible, entry_note = None, tags = None, timestamp = 50\<rparr>,
      \<lparr>entry_id = 3, mood = Good, entry_note = Some ''y'', tags = None, timestamp = 10\<rparr>])"
    by simp
  have n: "sortEntries ''newest''
     [\<lparr>entry_id = 1, mood = Good, entry_note = Some ''x'', tags = Some [], timestamp = 20\<rparr>,
      \<lparr>entry_id = 2, mood = Terrible, entry_note = None, tags = None, timestamp = 50\<rparr>,
      \<lparr>entry_id = 3, mood = Good, entry_note = Some ''y'', tags = None, timestamp = 10\<rparr>]
    = [\<lparr>entry_id = 2, mood = Terrible, entry_note = None, tags = None, timestamp = 50\<rparr>,
       \<lparr>entry_id = 1, mood = Good, entry_note = Some ''x'', tags = Some [], timestamp = 20\<rparr>,
       \<lparr>entry_id = 3, mood = Good, entry_note = Some ''y'', tags = None, timestamp = 10\<rparr>]"
    by (simp add: sortEntries_def array_sort_def)
  show ?thesis
    using oldest_reverses_newest [OF d] by (simp add: n)
qed

section \<open>Properties of the streak\<close>










section \<open>Properties of the most common mood\<close>

lemma bump_lookup:
  "map_of (bump k kvs) k' =
     (if k' = k then Some (case map_of kvs k of None \<Rightarrow> 1 | Some n \<Rightarrow> n + 1) else map_of kvs k')"
  by (induction k kvs rule: bump.induct) auto

lemma bump_keys:
  "map fst (bump k kvs) = (if k \<in> fst ` set kvs then map fst kvs else map fst kvs @ [k])"
  by (induction k kvs rule: bump.induct) auto

lemma tally_lookup:
  "map_of (foldl (\<lambda>counts k. bump k counts) [] ks) k =
     (if k \<in> set ks then Some (count_list ks k) else None)"
  by (induction ks rule: rev_induct) (auto simp: bump_lookup)

lemma bump_key_set: "fst ` set (bump k kvs) = insert k (fst ` set kvs)"
  by (induction k kvs rule: bump.induct) auto

lemma tally_keys_set: "fst ` set (foldl (\<lambda>counts k. bump k counts) [] ks) = set ks"
  by (induction ks rule: rev_induct) (simp_all add: bump_key_set)

lemma tally_key_member:
  "map fst (foldl (\<lambda>counts k. bump k counts) [] ks) = pre @ k # post \<Longrightarrow> k \<in> set ks"
proof -
  assume "map fst (foldl (\<lambda>counts k. bump k counts) [] ks) = pre @ k # post"
  then have "k \<in> set (map fst (foldl (\<lambda>counts k. bump k counts) [] ks))"
    by simp
  then show "k \<in> set ks"
    using tally_keys_set [of ks] by simp
qed

lemma tally_keys_order:
  "map fst (foldl (\<lambda>counts k. bump k counts) [] ks) = pre @ k # post \<Longrightarrow>
   set pre = set (takeWhile (\<lambda>x. x \<noteq> k) ks)"
proof (induction ks arbitrary: post rule: rev_induct)
  case Nil
  then show ?case by simp
next
  case (snoc x ks)
  let ?keys = "map fst (foldl (\<lambda>counts k. bump k counts) [] ks)"
  show ?case
  proof (cases "x \<in> set ks")
    case True
    then have "?keys = pre @ k # post"
      using snoc.prems by (simp add: bump_keys tally_keys_set)
    moreover from this have "k \<in> set ks"
      by (rule tally_key_member)
    ultimately show ?thesis
      using snoc.IH by (simp add: takeWhile_append1)
  next
    case False
    then have keys: "?keys @ [x] = pre @ k # post"
      using snoc.prems by (simp add: bump_keys tally_keys_set)
    show ?thesis
    proof (cases post rule: rev_cases)
      case Nil
      then have "pre = ?keys" and "k = x"
        using keys by simp_all
      moreover have "takeWhile (\<lambda>y. y \<noteq> x) (ks @ [x]) = ks"
        using False by (subst takeWhile_append2) auto
      ultimately show ?thesis
        using tally_keys_set [of ks] by simp
    next
      case (snoc post' y)
      then have "?keys = pre @ k # post'"
        using keys by simp
      moreover from this have "k \<in> set ks"
        by (rule tally_key_member)
      ultimately show ?thesis
        using snoc.IH by (simp add: takeWhile_append1)
    qed
  qed
qed

lemma reduce_last_maximum:
  assumes "\<forall>k \<in> set (a # ks). m k = Some (c k)"
  shows "\<exists>pre post. a # ks = pre @ foldl (\<lambda>a b. if js_greater (m a) (m b) then a else b) a ks # post
     \<and> (\<forall>k \<in> set pre. c k \<le> c (foldl (\<lambda>a b. if js_greater (m a) (m b) then a else b) a ks))
     \<and> (\<forall>k \<in> set post. c k < c (foldl (\<lambda>a b. if js_greater (m a) (m b) then a else b) a ks))"
  using assms
proof (induction ks rule: rev_induct)
  case Nil
  have "[a] = [] @ a # []" by simp
  then show ?case by force
next
  case (snoc k ks)
  define r where "r = foldl (\<lambda>a b. if js_greater (m a) (m b) then a else b) a ks"
  obtain pre post where split: "a # ks = pre @ r # post"
    and before: "\<forall>x \<in> set pre. c x \<le> c r" and after: "\<forall>x \<in> set post. c x < c r"
    using snoc unfolding r_def by auto
  have "r \<in> set (a # ks)"
    using split by simp
  then have mr: "m r = Some (c r)" and mk: "m k = Some (c k)"
    using snoc.prems by auto
  show ?case
  proof (cases "c k < c r")
    case True
    then have res: "foldl (\<lambda>a b. if js_greater (m a) (m b) then a else b) a (ks @ [k]) = r"
      using mr mk by (simp add: r_def)
    have "a # ks @ [k] = pre @ r # (post @ [k])"
      using split by simp
    moreover have "\<forall>x \<in> set (post @ [k]). c x < c r"
      using after True by simp
    ultimately show ?thesis
      unfolding res using before by blast
  next
    case False
    then have res: "foldl (\<lambda>a b. if js_greater (m a) (m b) then a else b) a (ks @ [k]) = k"
      using mr mk by (simp add: r_def)
    have "\<forall>x \<in> set (a # ks). c x \<le> c k"
    proof
      fix x assume "x \<in> set (a # ks)"
      then have "x \<in> set pre \<or> x = r \<or> x \<in> set post"
        using split by auto
      then have "c x \<le> c r"
        using before after by auto
      then show "c x \<le> c k"
        using False by simp
    qed
    moreover have "a # ks @ [k] = (a # ks) @ k # []"
      by simp
    ultimately show ?thesis
      unfolding res by (metis empty_iff empty_set)
  qed
qed

lemma moodCounts_tally:
  "moodCounts es = foldl (\<lambda>counts k. bump k counts) [] (map (\<lambda>e. moodName (mood e)) es)"
  by (simp add: moodCounts_def foldl_map)

lemma count_names:
  "count_list (map (\<lambda>e. moodName (mood e)) es) (moodName m) = count_list (map mood es) m"
  by (induction es) (simp_all add: moodName_inj)

lemma moodName_not_dash: "moodName m \<noteq> ''-''" "''-'' \<noteq> moodName m"
  by (cases m; simp)+

lemma takeWhile_names:
  "takeWhile (\<lambda>x. x \<noteq> moodName m) (map (\<lambda>e. moodName (mood e)) es)
     = map moodName (takeWhile (\<lambda>x. x \<noteq> m) (map mood es))"
  by (induction es) (simp_all add: moodName_inj)

lemma mostCommon_last_maximum:
  assumes "es \<noteq> []"
  shows "\<exists>m. mostCommon es = moodName m \<and> m \<in> set (map mood es)
     \<and> (\<forall>m'. count_list (map mood es) m' \<le> count_list (map mood es) m)
     \<and> (\<forall>m'. m' \<noteq> m \<and> count_list (map mood es) m' = count_list (map mood es) m
           \<longrightarrow> m' \<in> set (takeWhile (\<lambda>x. x \<noteq> m) (map mood es)))"
proof -
  define ns where "ns = map (\<lambda>e. moodName (mood e)) es"
  define K where "K = map fst (moodCounts es)"
  let ?step = "\<lambda>a b. if js_greater (map_of (moodCounts es) a) (map_of (moodCounts es) b) then a else b"
  have keys: "set K = set ns"
    using tally_keys_set [of ns] by (simp add: K_def ns_def moodCounts_tally)
  have lookup: "map_of (moodCounts es) k = (if k \<in> set ns then Some (count_list ns k) else None)"
    for k
    unfolding ns_def moodCounts_tally by (rule tally_lookup)
  have "''-'' \<notin> set ns"
    by (auto simp: ns_def moodName_not_dash)
  then have dash: "map_of (moodCounts es) ''-'' = None"
    by (simp add: lookup)
  have "K \<noteq> []"
    using keys assms by (auto simp: ns_def)
  then obtain k1 K' where K: "K = k1 # K'"
    by (cases K) simp_all
  have run: "mostCommon es = foldl ?step k1 K'"
    using K dash by (simp add: mostCommon_def Let_def K_def [symmetric])
  have "\<forall>k \<in> set (k1 # K'). map_of (moodCounts es) k = Some (count_list ns k)"
    using keys K by (simp add: lookup)
  from reduce_last_maximum [OF this]
  obtain pre post where split: "K = pre @ mostCommon es # post"
    and before: "\<forall>k \<in> set pre. count_list ns k \<le> count_list ns (mostCommon es)"
    and after: "\<forall>k \<in> set post. count_list ns k < count_list ns (mostCommon es)"
    unfolding run K by blast
  have "mostCommon es \<in> set ns"
    using split keys by auto
  then obtain e where e: "e \<in> set es" "mostCommon es = moodName (mood e)"
    by (auto simp: ns_def)
  define m where "m = mood e"
  have res: "mostCommon es = moodName m"
    using e(2) by (simp add: m_def)
  have cnt: "count_list ns (moodName x) = count_list (map mood es) x" for x
    unfolding ns_def by (rule count_names)
  have occurs: "moodName x \<in> set ns \<longleftrightarrow> x \<in> set (map mood es)" for x
    by (auto simp: ns_def moodName_inj)
  have top: "count_list (map mood es) m' \<le> count_list (map mood es) m" for m'
  proof (cases "m' \<in> set (map mood es)")
    case True
    then have "moodName m' \<in> set pre \<or> moodName m' = mostCommon es \<or> moodName m' \<in> set post"
      using occurs [of m'] keys split by auto
    then have "count_list ns (moodName m') \<le> count_list ns (mostCommon es)"
      using before after by auto
    then show ?thesis
      by (simp add: res cnt)
  next
    case False
    then show ?thesis
      by (simp add: count_list_0_iff)
  qed
  have tie: "m' \<in> set (takeWhile (\<lambda>x. x \<noteq> m) (map mood es))"
    if "m' \<noteq> m" and same: "count_list (map mood es) m' = count_list (map mood es) m" for m'
  proof -
    have "m \<in> set (map mood es)"
      using e(1) by (simp add: m_def)
    then have "count_list (map mood es) m' \<noteq> 0"
      using same by (simp add: count_list_0_iff)
    then have "m' \<in> set (map mood es)"
      by (simp add: count_list_0_iff)
    then have "moodName m' \<in> set K"
      using occurs [of m'] keys by simp
    moreover have "moodName m' \<noteq> mostCommon es"
      using that(1) by (simp add: res moodName_inj)
    moreover have "moodName m' \<notin> set post"
      using after same by (auto simp: res cnt)
    ultimately have "moodName m' \<in> set pre"
      using split by auto
    moreover have "set pre = set (takeWhile (\<lambda>x. x \<noteq> moodName m) ns)"
      using split unfolding K_def moodCounts_tally ns_def res by (rule tally_keys_order)
    ultimately have "moodName m' \<in> moodName ` set (takeWhile (\<lambda>x. x \<noteq> m) (map mood es))"
      by (simp add: ns_def takeWhile_names)
    then show ?thesis
      by (auto simp: moodName_inj)
  qed
  show ?thesis
    using res e(1) top tie unfolding m_def by (intro exI [of _ "mood e"]) simp
qed

text \<open>
  C1, as the code has it. For a non-empty store the most common mood is a mood of the
  store whose number of entries is the largest; when several moods have that number, it
  is the one that \<open>Object.keys\<close> lists last among them, that is the one whose first
  entry in the store comes after the first entry of each of the others. For the empty
  store the text shown is \<open>-\<close>.
\<close>

theorem mostCommonMood_last_maximum:
  "(es \<noteq> [] \<longrightarrow>
      (\<exists>m. mostCommonMood es = moodName m \<and> m \<in> set (map mood es)
         \<and> (\<forall>m'. count_list (map mood es) m' \<le> count_list (map mood es) m)
         \<and> (\<forall>m'. m' \<noteq> m \<and> count_list (map mood es) m' = count_list (map mood es) m
               \<longrightarrow> m' \<in> set (takeWhile (\<lambda>x. x \<noteq> m) (map mood es)))))
   \<and> mostCommonMood ([] :: 'a entry list) = ''-''"
proof (intro conjI impI)
  assume "es \<noteq> []"
  then show "\<exists>m. mostCommonMood es = moodName m \<and> m \<in> set (map mood es)
         \<and> (\<forall>m'. count_list (map mood es) m' \<le> count_list (map mood es) m)
         \<and> (\<forall>m'. m' \<noteq> m \<and> count_list (map mood es) m' = count_list (map mood es) m
               \<longrightarrow> m' \<in> set (takeWhile (\<lambda>x. x \<noteq> m) (map mood es)))"
    using mostCommon_last_maximum [of es] by (simp add: mostCommonMood_def)
next
  show "mostCommonMood ([] :: 'a entry list) = ''-''"
    by (simp add: mostCommonMood_def)
qed

theorem mostCommonMood_last_maximum_witness:
  "\<exists>m. mostCommonMood
       [\<lparr>entry_id = 4, mood = Amazing, entry_note = Some ''x'', tags = Some [], timestamp = (40::int)\<rparr>,
      \<lparr>entry_id = 3, mood = Good, entry_note = Some ''y'', tags = Some [], timestamp = 30\<rparr>,
      \<lparr>entry_id = 2, mood = Good, entry_note = Some ''z'', tags = Some [], timestamp = 20\<rparr>,
      \<lparr>entry_id = 1, mood = Amazing, entry_note = Some ''w'', tags = Some [], timestamp = 10\<rparr>] = moodName m
     \<and> m \<in> set (map mood
       [\<lparr>entry_id = 4, mood = Amazing, entry_note = Some ''x'', tags = Some [], timestamp = (40::int)\<rparr>,
      \<lparr>entry_id = 3, mood = Good, entry_note = Some ''y'', tags = Some [], timestamp = 30\<rparr>,
      \<lparr>entry_id = 2, mood = Good, entry_note = Some ''z'', tags = Some [], timestamp = 20\<rparr>,
      \<lparr>entry_id = 1, mood = Amazing, entry_note = Some ''w'', tags = Some [], timestamp = 10\<rparr>])
     \<and> count_list (map mood
       [\<lparr>entry_id = 4, mood = Amazing, entry_note = Some ''x'', tags = Some [], timestamp = (40::int)\<rparr>,
      \<lparr>entry_id = 3, mood = Good, entry_note = Some ''y'', tags = Some [], timestamp = 30\<rparr>,
      \<lparr>entry_id = 2, mood = Good, entry_note = Some ''z'', tags = Some [], timestamp = 20\<rparr>,
      \<lparr>entry_id = 1, mood = Amazing, entry_note = Some ''w'', tags = Some [], timestamp = 10\<rparr>]) Amazing
       \<le> count_list (map mood
       [\<lparr>entry_id = 4, mood = Amazing, entry_note = Some ''x'', tags = Some [], timestamp = (40::int)\<rparr>,
      \<lparr>entry_id = 3, mood = Good, entry_note = Some ''y'', tags = Some [], timestamp = 30\<rparr>,
      \<lparr>entry_id = 2, mood = Good, entry_note = Some ''z'', tags = Some [], timestamp = 20\<rparr>,
      \<lparr>entry_id = 1, mood = Amazing, entry_note = Some ''w'', tags = Some [], timestamp = 10\<rparr>]) m"
proof -
  have "[\<lparr>entry_id = 4, mood = Amazing, entry_note = Some ''x'', tags = Some [], timestamp = (40::int)\<rparr>,
      \<lparr>entry_id = 3, mood = Good, entry_note = Some ''y'', tags = Some [], timestamp = 30\<rparr>,
      \<lparr>entry_id = 2, mood = Good, entry_note = Some ''z'', tags = Some [], timestamp = 20\<rparr>,
      \<lparr>entry_id = 1, mood = Amazing, entry_note = Some ''w'', tags = Some [], timestamp = 10\<rparr>] \<noteq> []"
    by simp
  then show ?thesis
    using mostCommonMood_last_maximum [of
       "[\<lparr>entry_id = 4, mood = Amazing, entry_note = Some ''x'', tags = Some [], timestamp = (40::int)\<rparr>,
      \<lparr>entry_id = 3, mood = Good, entry_note = Some ''y'', tags = Some [], timestamp = 30\<rparr>,
      \<lparr>entry_id = 2, mood = Good, entry_note = Some ''z'', tags = Some [], timestamp = 20\<rparr>,
      \<lparr>entry_id = 1, mood = Amazing, entry_note = Some ''w'', tags = Some [], timestamp = 10\<rparr>]"]
    by blast
qed

text \<open>
  C1, as the claim states it, fails: in the store below Amazing and Good have two
  entries each, \<open>Object.keys\<close> lists Amazing first (it is also the first of the two in
  the order of the ranks), and the mood shown is Good.
\<close>

theorem mostCommonMood_first_key_counterexample:
  "moodCounts
     [\<lparr>entry_id = 4, mood = Amazing, entry_note = Some ''x'', tags = Some [], timestamp = (40::int)\<rparr>,
      \<lparr>entry_id = 3, mood = Good, entry_note = Some ''y'', tags = Some [], timestamp = 30\<rparr>,
      \<lparr>entry_id = 2, mood = Good, entry_note = Some ''z'', tags = Some [], timestamp = 20\<rparr>,
      \<lparr>entry_id = 1, mood = Amazing, entry_note = Some ''w'', tags = Some [], timestamp = 10\<rparr>] = [(''Amazing'', 2), (''Good'', 2)]
   \<and> spec_mostCommonMood
     [\<lparr>entry_id = 4, mood = Amazing, entry_note = Some ''x'', tags = Some [], timestamp = (40::int)\<rparr>,
      \<lparr>entry_id = 3, mood = Good, entry_note = Some ''y'', tags = Some [], timestamp = 30\<rparr>,
      \<lparr>entry_id = 2, mood = Good, entry_note = Some ''z'', tags = Some [], timestamp = 20\<rparr>,
      \<lparr>entry_id = 1, mood = Amazing, entry_note = Some ''w'', tags = Some [], timestamp = 10\<rparr>] = ''Amazing''
   \<and> mostCommonMood
     [\<lparr>entry_id = 4, mood = Amazing, entry_note = Some ''x'', tags = Some [], timestamp = (40::int)\<rparr>,
      \<lparr>entry_id = 3, mood = Good, entry_note = Some ''y'', tags = Some [], timestamp = 30\<rparr>,
      \<lparr>entry_id = 2, mood = Good, entry_note = Some ''z'', tags = Some [], timestamp = 20\<rparr>,
      \<lparr>entry_id = 1, mood = Amazing, entry_note = Some ''w'', tags = Some [], timestamp = 10\<rparr>] = ''Good''"
  by code_simp

end
